theory Spec2Isabelle
  imports Complex_Main
begin

section \<open>Data model\<close>

text \<open>
  The pipeline works on pandas data frames.  A frame is modelled column-wise, as pandas
  stores it: an index and an ordered list of named float64 columns.  A float64 cell of a
  frame is a real number or NaN (\<open>None\<close>); finite floats are taken as the reals they
  denote, so rounding is not modelled.  The index is either a \<open>DatetimeIndex\<close>, whose
  entries are timestamps or the missing timestamp \<open>NaT\<close>, or an index of another kind
  (the test \<open>isinstance(index, pd.DatetimeIndex)\<close> of \<open>split_data\<close> tells them apart).
\<close>

datatype timestamp = NaT | Ts int

datatype index = DatetimeIndex "timestamp list" | OtherIndex "string list"

type_synonym column = "real option list"

record table =
  index :: index
  cols :: "(string \<times> column) list"

text \<open>Exceptions are values: one constructor per \<open>raise\<close> site (or library failure),
  carrying the values that the message interpolates.\<close>

datatype error =
    NoDataLoaded  \<comment> \<open>\<open>ValueError("No data loaded")\<close>\<close>
  | IndexError  \<comment> \<open>an index position out of bounds\<close>
  | KeyError string
  | WindowNegative int  \<comment> \<open>pandas: \<open>ValueError("window must be an integer 0 or greater")\<close>\<close>
  | TargetNotFound string  \<comment> \<open>\<open>ValueError("Target column '...' not found in data")\<close>\<close>
  | FeaturesNotFound "string list"  \<comment> \<open>\<open>ValueError("Features not found: [...]")\<close>\<close>
  | NoTrainedModel  \<comment> \<open>\<open>ValueError("No trained model available")\<close>\<close>
  | NPeriodsRequired  \<comment> \<open>\<open>ValueError("n_periods must be specified ...")\<close>\<close>
  | LengthMismatch nat nat  \<comment> \<open>pandas: length of values does not match length of index\<close>
  | NoTrainingData  \<comment> \<open>\<open>self.training_data.index\<close> on \<open>None\<close>\<close>
  | MetricsInputRequired  \<comment> \<open>\<open>ValueError("Predictions and actual values required for metrics")\<close>\<close>
  | NoValuesForMetrics  \<comment> \<open>\<open>ValueError("No predictions and actual values available for metrics")\<close>\<close>
  | NoValidAfterFiltering
      \<comment> \<open>\<open>ValueError("No valid predictions and actual values after filtering NaN/inf")\<close>\<close>
  | NonFiniteAfterFiltering  \<comment> \<open>\<open>ValueError("NaN/inf values still present after filtering")\<close>\<close>
  | NoValidFinite nat nat nat nat nat
      \<comment> \<open>\<open>ValueError("No valid (finite) predictions and actual values available. Total values: .,
          NaN in predictions: ., NaN in actual: ., Inf in predictions: ., Inf in actual: .")\<close>\<close>
  | LibraryError string  \<comment> \<open>an exception raised inside pmdarima\<close>

subsection \<open>Python and pandas primitives\<close>

text \<open>\<open>int(x)\<close> on a float truncates towards zero.\<close>

definition py_int :: "real \<Rightarrow> int" where
  "py_int x = (if 0 \<le> x then \<lfloor>x\<rfloor> else \<lceil>x\<rceil>)"

text \<open>\<open>xs[k]\<close>: a negative position counts from the end; out of range raises.\<close>

definition py_getitem :: "'a list \<Rightarrow> int \<Rightarrow> error + 'a" where
  "py_getitem xs k =
     (let n = int (length xs); j = (if k < 0 then n + k else k)
      in if 0 \<le> j \<and> j < n then Inr (xs ! nat j) else Inl IndexError)"

text \<open>The bound of a slice \<open>[:k]\<close> or \<open>[k:]\<close> on \<open>n\<close> rows, clipped as Python clips it.\<close>

definition slice_bound :: "nat \<Rightarrow> int \<Rightarrow> nat" where
  "slice_bound n k = (if k < 0 then nat (max 0 (int n + k)) else min n (nat k))"

text \<open>Comparisons of timestamps as pandas evaluates them: any ordering comparison that
  involves \<open>NaT\<close> is false.\<close>

fun ts_lt :: "timestamp \<Rightarrow> timestamp \<Rightarrow> bool" where
  "ts_lt (Ts a) (Ts b) = (a < b)"
| "ts_lt _ _ = False"

fun ts_ge :: "timestamp \<Rightarrow> timestamp \<Rightarrow> bool" where
  "ts_ge (Ts a) (Ts b) = (b \<le> a)"
| "ts_ge _ _ = False"

fun index_length :: "index \<Rightarrow> nat" where
  "index_length (DatetimeIndex ts) = length ts"
| "index_length (OtherIndex ls) = length ls"

text \<open>\<open>len(df)\<close> is the length of the index.\<close>

definition len :: "table \<Rightarrow> nat" where
  "len df = index_length (index df)"

text \<open>Row selection.  \<open>take_rows ps df\<close> is the frame of the rows at the positions \<open>ps\<close>
  (all of them in range) in that order: \<open>df[mask]\<close> keeps the positions where the mask is
  true, \<open>df.iloc[:k]\<close> and \<open>df.iloc[k:]\<close> the positions before and from the slice bound.\<close>

fun take_index :: "nat list \<Rightarrow> index \<Rightarrow> index" where
  "take_index ps (DatetimeIndex ts) = DatetimeIndex (map (\<lambda>i. ts ! i) ps)"
| "take_index ps (OtherIndex ls) = OtherIndex (map (\<lambda>i. ls ! i) ps)"

definition take_rows :: "nat list \<Rightarrow> table \<Rightarrow> table" where
  "take_rows ps df =
     \<lparr>index = take_index ps (index df),
      cols = map (\<lambda>(name, xs). (name, map (\<lambda>i. xs ! i) ps)) (cols df)\<rparr>"

definition mask_rows :: "(nat \<Rightarrow> bool) \<Rightarrow> table \<Rightarrow> table" where
  "mask_rows keep df = take_rows (filter keep [0..<len df]) df"

definition iloc_to :: "int \<Rightarrow> table \<Rightarrow> table" where
  "iloc_to k df = take_rows [0..<slice_bound (len df) k] df"

definition iloc_from :: "int \<Rightarrow> table \<Rightarrow> table" where
  "iloc_from k df = take_rows [slice_bound (len df) k..<len df] df"

fun stamps :: "index \<Rightarrow> timestamp list" where
  "stamps (DatetimeIndex ts) = ts"
| "stamps (OtherIndex ls) = []"

fun is_DatetimeIndex :: "index \<Rightarrow> bool" where
  "is_DatetimeIndex (DatetimeIndex ts) = True"
| "is_DatetimeIndex (OtherIndex ls) = False"

section \<open>DataService.split\_data\<close>

record data_service =
  current_data :: "table option"
  file_path :: "string option"

definition has_data :: "data_service \<Rightarrow> bool" where
  "has_data self = (current_data self \<noteq> None)"

text \<open>
  \<^verbatim>\<open>
  if not self.has_data(): raise ValueError("No data loaded")
  if method == "date_based" and isinstance(self.current_data.index, pd.DatetimeIndex):
      split_index = int(len(self.current_data) * split_ratio)
      split_date = self.current_data.index[split_index]
      training_data = self.current_data[self.current_data.index < split_date]
      testing_data = self.current_data[self.current_data.index >= split_date]
  else:
      split_index = int(len(self.current_data) * split_ratio)
      training_data = self.current_data.iloc[:split_index]
      testing_data = self.current_data.iloc[split_index:]
  return training_data, testing_data
  \<close>
\<close>

definition split_data :: "data_service \<Rightarrow> real \<Rightarrow> string \<Rightarrow> error + (table \<times> table)" where
  "split_data self split_ratio method =
     (case current_data self of
        None \<Rightarrow> Inl NoDataLoaded
      | Some df \<Rightarrow>
          if method = ''date_based'' \<and> is_DatetimeIndex (index df) then
            (let split_index = py_int (real (len df) * split_ratio) in
             case py_getitem (stamps (index df)) split_index of
               Inl e \<Rightarrow> Inl e
             | Inr split_date \<Rightarrow>
                 Inr (mask_rows (\<lambda>i. ts_lt (stamps (index df) ! i) split_date) df,
                      mask_rows (\<lambda>i. ts_ge (stamps (index df) ! i) split_date) df))
          else
            (let split_index = py_int (real (len df) * split_ratio) in
             Inr (iloc_to split_index df, iloc_from split_index df)))"

section \<open>FeatureEngineer.generate\_rolling\_features\<close>

subsection \<open>pandas: column access, rolling windows, dropna\<close>

text \<open>\<open>df.columns\<close>, \<open>df[col]\<close> (a missing column raises \<open>KeyError\<close>) and
  \<open>df[name] = series\<close>, which overwrites the column of that name in place or appends a
  new last column.\<close>

definition columns :: "table \<Rightarrow> string list" where
  "columns df = map fst (cols df)"

definition getitem :: "table \<Rightarrow> string \<Rightarrow> error + column" where
  "getitem df col = (case map_of (cols df) col of None \<Rightarrow> Inl (KeyError col) | Some xs \<Rightarrow> Inr xs)"

fun assign :: "string \<Rightarrow> column \<Rightarrow> (string \<times> column) list \<Rightarrow> (string \<times> column) list" where
  "assign name xs [] = [(name, xs)]"
| "assign name xs ((name', ys) # rest) =
     (if name = name' then (name, xs) # rest else (name', ys) # assign name xs rest)"

definition setitem :: "string \<Rightarrow> column \<Rightarrow> table \<Rightarrow> table" where
  "setitem name xs df = df\<lparr>cols := assign name xs (cols df)\<rparr>"

text \<open>
  \<open>series.rolling(window=w)\<close> with the default \<open>min_periods = w\<close>: the window at row
  \<open>i\<close> holds the rows \<open>i-w+1 .. i\<close>; the result at row \<open>i\<close> is NaN when fewer than
  \<open>w\<close> rows are available or when one of them is NaN, and the aggregate of the window
  otherwise.  A negative window is rejected when the rolling object is built.  The
  aggregates are those of pandas: the mean, the sample standard deviation (\<open>ddof = 1\<close>,
  NaN on fewer than two observations), the minimum and the maximum; on an empty window
  (\<open>w = 0\<close>) each of them is NaN.
\<close>

definition window_at :: "column \<Rightarrow> nat \<Rightarrow> nat \<Rightarrow> real list option" where
  "window_at xs w i = (if i + 1 < w then None else those (take w (drop (i + 1 - w) xs)))"

definition mean :: "real list \<Rightarrow> real" where
  "mean vs = sum_list vs / real (length vs)"

definition agg_mean :: "real list \<Rightarrow> real option" where
  "agg_mean vs = (if vs = [] then None else Some (mean vs))"

definition agg_std :: "real list \<Rightarrow> real option" where
  "agg_std vs =
     (if length vs \<le> 1 then None
      else Some (sqrt (sum_list (map (\<lambda>v. (v - mean vs)\<^sup>2) vs) / real (length vs - 1))))"

definition agg_min :: "real list \<Rightarrow> real option" where
  "agg_min vs = (case vs of [] \<Rightarrow> None | v # rest \<Rightarrow> Some (fold min rest v))"

definition agg_max :: "real list \<Rightarrow> real option" where
  "agg_max vs = (case vs of [] \<Rightarrow> None | v # rest \<Rightarrow> Some (fold max rest v))"

definition rolling :: "(real list \<Rightarrow> real option) \<Rightarrow> int \<Rightarrow> column \<Rightarrow> error + column" where
  "rolling agg window xs =
     (if window < 0 then Inl (WindowNegative window)
      else Inr (map (\<lambda>i. case window_at xs (nat window) i of None \<Rightarrow> None | Some vs \<Rightarrow> agg vs)
                  [0..<length xs]))"

text \<open>\<open>df.dropna()\<close> keeps the rows that hold no NaN in any column.\<close>

definition row_complete :: "table \<Rightarrow> nat \<Rightarrow> bool" where
  "row_complete df i = list_all (\<lambda>(name, xs). xs ! i \<noteq> None) (cols df)"

definition dropna :: "table \<Rightarrow> table" where
  "dropna df = mask_rows (row_complete df) df"

subsection \<open>Formatting an integer in an f-string\<close>

fun str_nat :: "nat \<Rightarrow> string" where
  "str_nat n =
     (if n < 10 then [''0123456789'' ! n]
      else str_nat (n div 10) @ [''0123456789'' ! (n mod 10)])"

declare str_nat.simps [simp del]

definition str_int :: "int \<Rightarrow> string" where
  "str_int k = (if k < 0 then CHR ''-'' # str_nat (nat (- k)) else str_nat (nat k))"

subsection \<open>The generator\<close>

record feature_engineer =
  data :: "table option"
  generated_features :: "string list"

datatype log_entry =
    Warning_column_not_found string  \<comment> \<open>\<open>logger.warning(f"Column '{col}' not found, skipping")\<close>\<close>
  | Info_dropped_rows nat  \<comment> \<open>\<open>logger.info(f"Dropped {dropped_rows} rows with NaN values ...")\<close>\<close>

text \<open>The state of the three nested loops: the frame, \<open>feature_names\<close> and the log.\<close>

type_synonym loop_state = "table \<times> string list \<times> log_entry list"

fun for_each :: "('a \<Rightarrow> 's \<Rightarrow> error + 's) \<Rightarrow> 'a list \<Rightarrow> 's \<Rightarrow> error + 's" where
  "for_each body [] s = Inr s"
| "for_each body (x # xs) s =
     (case body x s of Inl e \<Rightarrow> Inl e | Inr s' \<Rightarrow> for_each body xs s')"

text \<open>One branch of the \<open>if\<close>/\<open>elif\<close> chain:
  \<^verbatim>\<open>
  feature_name = f"{col}_rolling_mean_{window}"
  dataframe[feature_name] = dataframe[col].rolling(window=window).mean()
  feature_names.append(feature_name)
  \<close>\<close>

definition add_feature ::
  "string \<Rightarrow> (real list \<Rightarrow> real option) \<Rightarrow> string \<Rightarrow> int \<Rightarrow> loop_state \<Rightarrow> error + loop_state" where
  "add_feature tag agg col window s =
     (case s of (dataframe, feature_names, logs) \<Rightarrow>
        let feature_name = col @ ''_rolling_'' @ tag @ ''_'' @ str_int window in
        (case getitem dataframe col of
           Inl e \<Rightarrow> Inl e
         | Inr source \<Rightarrow>
             (case rolling agg window source of
                Inl e \<Rightarrow> Inl e
              | Inr feature \<Rightarrow>
                  Inr (setitem feature_name feature dataframe, feature_names @ [feature_name], logs))))"

definition operation_body :: "string \<Rightarrow> int \<Rightarrow> string \<Rightarrow> loop_state \<Rightarrow> error + loop_state" where
  "operation_body col window operation s =
     (if operation = ''mean'' then add_feature ''mean'' agg_mean col window s
      else if operation = ''std'' then add_feature ''std'' agg_std col window s
      else if operation = ''min'' then add_feature ''min'' agg_min col window s
      else if operation = ''max'' then add_feature ''max'' agg_max col window s
      else Inr s)"

definition window_body :: "string \<Rightarrow> string list \<Rightarrow> int \<Rightarrow> loop_state \<Rightarrow> error + loop_state" where
  "window_body col operations window s = for_each (operation_body col window) operations s"

definition column_body :: "int list \<Rightarrow> string list \<Rightarrow> string \<Rightarrow> loop_state \<Rightarrow> error + loop_state" where
  "column_body windows operations col s =
     (case s of (dataframe, feature_names, logs) \<Rightarrow>
        if col \<notin> set (columns dataframe)
        then Inr (dataframe, feature_names, logs @ [Warning_column_not_found col])
        else for_each (window_body col operations) windows s)"

text \<open>The loops of \<open>generate_rolling_features\<close>, up to the frame before \<open>dropna\<close>.\<close>

definition build_features ::
  "table \<Rightarrow> string list \<Rightarrow> int list \<Rightarrow> string list \<Rightarrow> error + loop_state" where
  "build_features data_in cols_in windows operations =
     for_each (column_body windows operations) cols_in (data_in, [], [])"

text \<open>
  The whole method.  \<open>operations = None\<close> stands for the default \<open>['mean', 'std']\<close>.  It
  returns the frame; the feature names are left in \<open>self.generated_features\<close>.  An
  exception leaves \<open>self\<close> as it was, so a failing call yields the error alone.
\<close>

definition generate_rolling_features ::
  "feature_engineer \<Rightarrow> table \<Rightarrow> string list \<Rightarrow> int list \<Rightarrow> string list option
     \<Rightarrow> error + (feature_engineer \<times> table \<times> log_entry list)" where
  "generate_rolling_features self data_in cols_in windows operations =
     (let operations = (case operations of None \<Rightarrow> [''mean'', ''std''] | Some ops \<Rightarrow> ops) in
      (case build_features data_in cols_in windows operations of
         Inl e \<Rightarrow> Inl e
       | Inr (dataframe, feature_names, logs) \<Rightarrow>
           (let initial_rows = len dataframe;
                dropped = dropna dataframe;
                dropped_rows = initial_rows - len dropped;
                logs = (if dropped_rows > 0 then logs @ [Info_dropped_rows dropped_rows] else logs)
            in Inr (self\<lparr>data := Some dropped, generated_features := feature_names\<rparr>,
                    dropped, logs))))"

text \<open>
  \<^verbatim>\<open>
  def get_rolling_feature_names(self, columns, windows, operations=None):
      if operations is None: operations = ['mean', 'std']
      feature_names = []
      for col in columns:
          for window in windows:
              for operation in operations:
                  feature_names.append(f"{col}_rolling_{operation}_{window}")
      return feature_names
  \<close>
\<close>

definition feature_name :: "string \<Rightarrow> string \<Rightarrow> int \<Rightarrow> string" where
  "feature_name col operation window = col @ ''_rolling_'' @ operation @ ''_'' @ str_int window"


section \<open>ModelService\<close>

text \<open>
  Forecasts and actual values are float64 arrays, which may hold NaN and the infinities
  (\<open>calculate_metrics\<close> filters them).  A series is its values with its index labels:
  the date strings, or \<open>range(n)\<close> when there are none.
\<close>

datatype float64 = Fin (real_of: real) | PInf | NInf | NaN

fun isfinite :: "float64 \<Rightarrow> bool" where
  "isfinite (Fin x) = True"
| "isfinite _ = False"

fun isnan :: "float64 \<Rightarrow> bool" where
  "isnan NaN = True"
| "isnan _ = False"

fun isinf :: "float64 \<Rightarrow> bool" where
  "isinf PInf = True"
| "isinf NInf = True"
| "isinf _ = False"

text \<open>A frame cell as a float64 (\<open>.tolist()\<close>, \<open>.values\<close>).\<close>

fun cell_value :: "real option \<Rightarrow> float64" where
  "cell_value None = NaN"
| "cell_value (Some x) = Fin x"

datatype labels = Dates "string list" | RangeIndex int

fun labels_length :: "labels \<Rightarrow> nat" where
  "labels_length (Dates ds) = length ds"
| "labels_length (RangeIndex n) = nat n"

record series =
  values_of :: "float64 list"
  labels_of :: labels

text \<open>\<open>pd.Series(values, index=labels)\<close> raises when the lengths differ.\<close>

definition Series :: "float64 list \<Rightarrow> labels \<Rightarrow> error + series" where
  "Series vs ls =
     (if length vs = labels_length ls then Inr \<lparr>values_of = vs, labels_of = ls\<rparr>
      else Inl (LengthMismatch (length vs) (labels_length ls)))"

record model_info =
  model_type :: string
  parameters :: "int \<times> int \<times> int"
  aic :: "real option"
  training_rows :: nat
  testing_rows :: nat
  features_used :: "string list"
  target_column :: string
  model_summary :: "string option"

text \<open>The session state of the service; \<open>model_info = {}\<close> is \<open>None\<close>.\<close>

record 'm model_service =
  model :: "'m option"
  model_info :: "model_info option"
  training_data :: "table option"
  testing_data :: "table option"
  predictions :: "series option"
  actual_values :: "series option"

record arima_params =
  trace :: bool
  max_p :: int
  max_d :: int
  max_q :: int

text \<open>
  What the service calls outside the repository, taken as parameters: \<open>auto_arima\<close> of
  pmdarima, the fitted model's \<open>predict\<close>, \<open>order\<close>, \<open>aic()\<close> and \<open>summary()\<close>,
  \<open>str\<close> of a timestamp, and the future dates that \<open>predict\<close> builds with
  \<open>pd.date_range\<close> from the index of the training data and \<open>n_periods\<close>.
\<close>

record 'm library =
  auto_arima :: "column \<Rightarrow> table option \<Rightarrow> arima_params \<Rightarrow> error + 'm"
  model_predict :: "'m \<Rightarrow> int \<Rightarrow> table option \<Rightarrow> error + float64 list"
  model_order :: "'m \<Rightarrow> int \<times> int \<times> int"
  model_aic :: "'m \<Rightarrow> real"
  model_summary_text :: "'m \<Rightarrow> string"
  str_timestamp :: "timestamp \<Rightarrow> string"
  future_dates :: "index \<Rightarrow> int \<Rightarrow> error + string list"

text \<open>\<open>df[names]\<close> with a list of names: the frame of those columns, \<open>KeyError\<close> on a
  missing one.\<close>

fun getitems :: "table \<Rightarrow> string list \<Rightarrow> error + (string \<times> column) list" where
  "getitems df [] = Inr []"
| "getitems df (name # names) =
     (case getitem df name of
        Inl e \<Rightarrow> Inl e
      | Inr xs \<Rightarrow> (case getitems df names of Inl e \<Rightarrow> Inl e | Inr rest \<Rightarrow> Inr ((name, xs) # rest)))"

definition select_columns :: "table \<Rightarrow> string list \<Rightarrow> error + table" where
  "select_columns df names =
     (case getitems df names of Inl e \<Rightarrow> Inl e | Inr cs \<Rightarrow> Inr (df\<lparr>cols := cs\<rparr>))"

subsection \<open>train\_arima\<close>

text \<open>
  \<^verbatim>\<open>
  if target_column not in training_data.columns:
      raise ValueError(f"Target column '{target_column}' not found in data")
  missing_features = [f for f in features if f not in training_data.columns]
  if missing_features:
      raise ValueError(f"Features not found: {missing_features}")
  y = training_data[target_column]
  X = training_data[features] if features else None
  model = auto_arima(y=y, X=X, ...)
  self.model = model
  self.training_data = training_data
  self.testing_data = test_data
  self.model_info = {...}
  return self.model_info
  \<close>
  A method that mutates \<open>self\<close> returns the state with its outcome; when it raises, the
  state is the one the exception leaves behind.
\<close>

definition train_arima ::
  "'m library \<Rightarrow> arima_params \<Rightarrow> 'm model_service \<Rightarrow> table \<Rightarrow> string \<Rightarrow> string list
     \<Rightarrow> table option \<Rightarrow> 'm model_service \<times> (error + model_info)" where
  "train_arima lib params self training target features test_data =
     (if target \<notin> set (columns training) then (self, Inl (TargetNotFound target))
      else
        let missing_features = filter (\<lambda>f. f \<notin> set (columns training)) features in
        if missing_features \<noteq> [] then (self, Inl (FeaturesNotFound missing_features))
        else
          (case getitem training target of
             Inl e \<Rightarrow> (self, Inl e)
           | Inr y \<Rightarrow>
               (case (if features \<noteq> [] then map_sum id Some (select_columns training features)
                      else Inr None) of
                  Inl e \<Rightarrow> (self, Inl e)
                | Inr X \<Rightarrow>
                    (case auto_arima lib y X params of
                       Inl e \<Rightarrow> (self, Inl e)
                     | Inr fitted \<Rightarrow>
                         (let info =
                                \<lparr>model_type = ''ARIMA'',
                                 parameters = model_order lib fitted,
                                 aic = Some (model_aic lib fitted),
                                 training_rows = len training,
                                 testing_rows = (case test_data of None \<Rightarrow> 0 | Some t \<Rightarrow> len t),
                                 features_used = features,
                                 target_column = target,
                                 model_summary = Some (model_summary_text lib fitted)\<rparr>
                          in (self\<lparr>model := Some fitted, training_data := Some training,
                                    testing_data := test_data, model_info := Some info\<rparr>,
                              Inr info))))))"

subsection \<open>predict\<close>

text \<open>\<open>[str(idx) for idx in index]\<close>.\<close>

fun index_strs :: "(timestamp \<Rightarrow> string) \<Rightarrow> index \<Rightarrow> string list" where
  "index_strs str (DatetimeIndex ts) = map str ts"
| "index_strs str (OtherIndex ls) = ls"

record prediction =
  forecast_values :: "float64 list"
  dates :: "string list"
  actual :: "float64 list option"
  n_periods :: int

text \<open>
  \<^verbatim>\<open>
  if not self.has_trained_model(): raise ValueError("No trained model available")
  if n_periods is None:
      if self.testing_data is not None: n_periods = len(self.testing_data)
      else: raise ValueError("n_periods must be specified if no test data available")
  if X is None and self.testing_data is not None:
      features = self.model_info.get("features_used", [])
      if features: X = self.testing_data[features]
  forecast = self.model.predict(n_periods=n_periods, X=X)
  if self.testing_data is not None:
      dates = [str(idx) for idx in self.testing_data.index[:n_periods]]
      actual = self.testing_data[self.model_info["target_column"]].iloc[:n_periods].tolist()
  else:
      last_date = self.training_data.index[-1]
      dates = [str(pd.date_range(start=last_date, periods=n_periods+1, freq='D')[1:][i])
               for i in range(n_periods)]
      actual = None
  self.predictions = pd.Series(forecast_array, index=dates if dates else range(n_periods))
  if actual:
      self.actual_values = pd.Series(actual, index=dates)
  return {"values": ..., "dates": dates, "actual": actual, "n_periods": n_periods}
  \<close>
\<close>

definition dates_and_actual ::
  "'m library \<Rightarrow> 'm model_service \<Rightarrow> int \<Rightarrow> error + (string list \<times> float64 list option)" where
  "dates_and_actual lib self n =
     (case testing_data self of
        Some test \<Rightarrow>
          (case model_info self of
             None \<Rightarrow> Inl (KeyError ''target_column'')
           | Some info \<Rightarrow>
               (case getitem test (target_column info) of
                  Inl e \<Rightarrow> Inl e
                | Inr col \<Rightarrow>
                    Inr (index_strs (str_timestamp lib) (index (iloc_to n test)),
                         Some (map cell_value (take (slice_bound (length col) n) col)))))
      | None \<Rightarrow>
          (case training_data self of
             None \<Rightarrow> Inl NoTrainingData
           | Some training \<Rightarrow>
               (case future_dates lib (index training) n of
                  Inl e \<Rightarrow> Inl e
                | Inr ds \<Rightarrow> Inr (ds, None))))"

definition store_forecast ::
  "'m model_service \<Rightarrow> float64 list \<Rightarrow> string list \<Rightarrow> float64 list option \<Rightarrow> int
     \<Rightarrow> 'm model_service \<times> (error + prediction)" where
  "store_forecast self forecast ds act n =
     (case Series forecast (if ds \<noteq> [] then Dates ds else RangeIndex n) of
        Inl e \<Rightarrow> (self, Inl e)
      | Inr p \<Rightarrow>
          (let self1 = self\<lparr>predictions := Some p\<rparr>;
               result = \<lparr>forecast_values = forecast, dates = ds, actual = act, n_periods = n\<rparr>
           in case act of
                Some (v # vs) \<Rightarrow>
                  (case Series (v # vs) (Dates ds) of
                     Inl e \<Rightarrow> (self1, Inl e)
                   | Inr a \<Rightarrow> (self1\<lparr>actual_values := Some a\<rparr>, Inr result))
              | _ \<Rightarrow> (self1, Inr result)))"

definition predict ::
  "'m library \<Rightarrow> 'm model_service \<Rightarrow> int option \<Rightarrow> table option
     \<Rightarrow> 'm model_service \<times> (error + prediction)" where
  "predict lib self n_opt X_opt =
     (case model self of
        None \<Rightarrow> (self, Inl NoTrainedModel)
      | Some fitted \<Rightarrow>
          (case (case n_opt of
                   Some n \<Rightarrow> Inr n
                 | None \<Rightarrow> (case testing_data self of
                              Some test \<Rightarrow> Inr (int (len test))
                            | None \<Rightarrow> Inl NPeriodsRequired)) of
             Inl e \<Rightarrow> (self, Inl e)
           | Inr n \<Rightarrow>
               (case (case (X_opt, testing_data self) of
                        (None, Some test) \<Rightarrow>
                          (let features = (case model_info self of None \<Rightarrow> []
                                           | Some info \<Rightarrow> features_used info)
                           in if features \<noteq> [] then map_sum id Some (select_columns test features)
                              else Inr None)
                      | _ \<Rightarrow> Inr X_opt) of
                  Inl e \<Rightarrow> (self, Inl e)
                | Inr X \<Rightarrow>
                    (case model_predict lib fitted n X of
                       Inl e \<Rightarrow> (self, Inl e)
                     | Inr forecast \<Rightarrow>
                         (case dates_and_actual lib self n of
                            Inl e \<Rightarrow> (self, Inl e)
                          | Inr (ds, act) \<Rightarrow> store_forecast self forecast ds act n)))))"

subsection \<open>calculate\_metrics\<close>

record metrics =
  mse :: real
  rmse :: real
  mae :: real
  mape :: "real option"
  directional_accuracy :: "real option"

text \<open>numpy: \<open>a[mask]\<close>, \<open>np.diff\<close>, \<open>np.any\<close>, \<open>np.mean\<close> of a boolean array.\<close>

definition select :: "bool list \<Rightarrow> 'a list \<Rightarrow> 'a list" where
  "select keep xs = map snd (filter fst (zip keep xs))"

definition diff :: "real list \<Rightarrow> real list" where
  "diff xs = map2 (\<lambda>a b. b - a) xs (tl xs)"

definition any :: "bool list \<Rightarrow> bool" where
  "any bs = list_ex id bs"

definition mean_bool :: "bool list \<Rightarrow> real" where
  "mean_bool bs = mean (map (\<lambda>b. if b then 1 else 0) bs)"

text \<open>sklearn: \<open>mean_squared_error(y_true, y_pred)\<close>, \<open>mean_absolute_error(y_true, y_pred)\<close>.\<close>

definition mean_squared_error :: "real list \<Rightarrow> real list \<Rightarrow> real" where
  "mean_squared_error y_true y_pred = mean (map2 (\<lambda>t p. (t - p)\<^sup>2) y_true y_pred)"

definition mean_absolute_error :: "real list \<Rightarrow> real list \<Rightarrow> real" where
  "mean_absolute_error y_true y_pred = mean (map2 (\<lambda>t p. \<bar>t - p\<bar>) y_true y_pred)"

text \<open>
  \<^verbatim>\<open>
  non_zero_mask = np.abs(actual_clean) > 1e-10
  if np.any(non_zero_mask):
      mape = np.mean(np.abs((actual_clean[non_zero_mask] - pred_clean[non_zero_mask])
                            / actual_clean[non_zero_mask])) * 100
  else:
      mape = None
  \<close>
\<close>

definition non_zero_mask :: "real list \<Rightarrow> bool list" where
  "non_zero_mask actual_clean = map (\<lambda>a. \<bar>a\<bar> > 1 / 10 ^ 10) actual_clean"

definition calc_mape :: "real list \<Rightarrow> real list \<Rightarrow> real option" where
  "calc_mape actual_clean pred_clean =
     (let nz = non_zero_mask actual_clean in
      if any nz then
        Some (mean (map2 (\<lambda>a p. \<bar>(a - p) / a\<bar>) (select nz actual_clean) (select nz pred_clean))
              * 100)
      else None)"

text \<open>
  \<^verbatim>\<open>
  if len(actual_clean) > 1:
      actual_direction = np.diff(actual_clean) > 0
      pred_direction = np.diff(pred_clean) > 0
      directional_accuracy = np.mean(actual_direction == pred_direction) * 100
  else:
      directional_accuracy = None
  \<close>
\<close>

definition calc_directional_accuracy :: "real list \<Rightarrow> real list \<Rightarrow> real option" where
  "calc_directional_accuracy actual_clean pred_clean =
     (if length actual_clean > 1 then
        (let actual_direction = map (\<lambda>d. d > 0) (diff actual_clean);
             pred_direction = map (\<lambda>d. d > 0) (diff pred_clean)
         in Some (mean_bool (map2 (=) actual_direction pred_direction) * 100))
      else None)"

text \<open>
  The method on the stored series.  Both are float64 arrays in the model, so the
  conversion \<open>np.asarray(..., dtype=np.float64)\<close> is the identity and cannot fail.
  \<^verbatim>\<open>
  if self.predictions is None or self.actual_values is None: raise ValueError(...)
  min_len = min(len(pred_values), len(actual_values))
  pred_values = pred_values[:min_len]; actual_values = actual_values[:min_len]
  if min_len == 0: raise ValueError(...)
  valid_mask = np.isfinite(pred_values) & np.isfinite(actual_values)
  nan_pred_count = np.isnan(pred_values).sum() ...
  if not np.any(valid_mask): raise ValueError(error_msg)
  pred_clean = pred_values[valid_mask]; actual_clean = actual_values[valid_mask]
  if len(pred_clean) == 0: raise ValueError(...)
  if np.any(~np.isfinite(pred_clean)) or np.any(~np.isfinite(actual_clean)): raise ValueError(...)
  mse = mean_squared_error(actual_clean, pred_clean); rmse = np.sqrt(mse)
  mae = mean_absolute_error(actual_clean, pred_clean)
  \<close>
\<close>

definition valid_mask :: "float64 list \<Rightarrow> float64 list \<Rightarrow> bool list" where
  "valid_mask pred_values actual_vals = map2 (\<lambda>p a. isfinite p \<and> isfinite a) pred_values actual_vals"

definition metrics_of :: "float64 list \<Rightarrow> float64 list \<Rightarrow> error + metrics" where
  "metrics_of preds actuals =
     (let min_len = min (length preds) (length actuals);
          pred_values = take min_len preds;
          actual_vals = take min_len actuals
      in if min_len = 0 then Inl NoValuesForMetrics
         else
           (let valid = valid_mask pred_values actual_vals;
                nan_pred_count = length (filter isnan pred_values);
                nan_actual_count = length (filter isnan actual_vals);
                inf_pred_count = length (filter isinf pred_values);
                inf_actual_count = length (filter isinf actual_vals)
            in if \<not> any valid then
                 Inl (NoValidFinite (length pred_values) nan_pred_count nan_actual_count
                        inf_pred_count inf_actual_count)
               else
                 (let pred_clean = select valid pred_values;
                      actual_clean = select valid actual_vals
                  in if length pred_clean = 0 then Inl NoValidAfterFiltering
                     else if any (map (\<lambda>v. \<not> isfinite v) pred_clean)
                             \<or> any (map (\<lambda>v. \<not> isfinite v) actual_clean)
                     then Inl NonFiniteAfterFiltering
                     else
                       (let p = map real_of pred_clean;
                            a = map real_of actual_clean
                        in Inr \<lparr>mse = mean_squared_error a p,
                                rmse = sqrt (mean_squared_error a p),
                                mae = mean_absolute_error a p,
                                mape = calc_mape a p,
                                directional_accuracy = calc_directional_accuracy a p\<rparr>))))"

definition calculate_metrics :: "'m model_service \<Rightarrow> error + metrics" where
  "calculate_metrics self =
     (case (predictions self, actual_values self) of
        (Some p, Some a) \<Rightarrow> metrics_of (values_of p) (values_of a)
      | _ \<Rightarrow> Inl MetricsInputRequired)"

section \<open>Notions of the specification\<close>

text \<open>
  The specification speaks of the positions where both arrays hold finite values.
  \<open>finite_pairs\<close> lists the (predicted, actual) values at those positions, in order; it
  is the yardstick the filtering of \<open>calculate_metrics\<close> is compared with.
\<close>

definition both_finite :: "float64 \<times> float64 \<Rightarrow> bool" where
  "both_finite pa = (isfinite (fst pa) \<and> isfinite (snd pa))"

definition finite_pairs :: "float64 list \<Rightarrow> float64 list \<Rightarrow> (real \<times> real) list" where
  "finite_pairs preds actuals =
     map (\<lambda>pa. (real_of (fst pa), real_of (snd pa))) (filter both_finite (zip preds actuals))"

text \<open>The number of true entries among the first \<open>n\<close> values of a predicate on
  positions, as a percentage of \<open>n\<close>.\<close>

definition percentage :: "(nat \<Rightarrow> bool) \<Rightarrow> nat \<Rightarrow> real" where
  "percentage holds n = real (length (filter holds [0..<n])) / real n * 100"

text \<open>
  The directional accuracy in the words of the specification: the share of consecutive
  pairs where \<open>sign(actual[i+1] - actual[i]) = sign(pred[i+1] - pred[i])\<close>, with the
  three-valued sign.
\<close>

definition sign_agreement :: "real list \<Rightarrow> real list \<Rightarrow> nat \<Rightarrow> bool" where
  "sign_agreement ys ps i =
     (sgn (ys ! (i + 1) - ys ! i) = sgn (ps ! (i + 1) - ps ! i))"

definition spec_directional_accuracy :: "real list \<Rightarrow> real list \<Rightarrow> real option" where
  "spec_directional_accuracy ys ps =
     (if length ys > 1 then Some (percentage (sign_agreement ys ps) (length ys - 1))
      else None)"

text \<open>What the code compares instead: whether each series strictly rises.\<close>

definition rise_agreement :: "real list \<Rightarrow> real list \<Rightarrow> nat \<Rightarrow> bool" where
  "rise_agreement ys ps i =
     ((ys ! (i + 1) - ys ! i > 0) = (ps ! (i + 1) - ps ! i > 0))"

text \<open>The operations the generator knows, and the aggregate each of them names.\<close>

definition recognized :: "string \<Rightarrow> bool" where
  "recognized operation = (operation \<in> set [''mean'', ''std'', ''min'', ''max''])"





section \<open>Auxiliary notions of the proofs\<close>





section \<open>Example data\<close>

definition example_frame :: table where
  "example_frame =
     \<lparr>index = DatetimeIndex [Ts 1, Ts 2, Ts 2, Ts 3],
      cols = [(''Close'', [Some 10, Some 11, Some 12, Some 13])]\<rparr>"

definition example_service :: data_service where
  "example_service = \<lparr>current_data = Some example_frame, file_path = None\<rparr>"

text \<open>A session that holds a forecast and an actual series.\<close>

definition stored :: "float64 list \<Rightarrow> float64 list \<Rightarrow> unit model_service" where
  "stored preds actuals =
     \<lparr>model = None, model_info = None, training_data = None, testing_data = None,
      predictions = Some \<lparr>values_of = preds, labels_of = RangeIndex (int (length preds))\<rparr>,
      actual_values = Some \<lparr>values_of = actuals, labels_of = RangeIndex (int (length actuals))\<rparr>\<rparr>"

text \<open>
  A stand-in for pmdarima: fitting always succeeds, the fitted model forecasts the
  constant 100, timestamps count days and print as their number.
\<close>

definition example_library :: "unit library" where
  "example_library =
     \<lparr>auto_arima = (\<lambda>y X params. Inr ()),
      model_predict = (\<lambda>fitted n X. Inr (replicate (nat n) (Fin 100))),
      model_order = (\<lambda>fitted. (1, 0, 0)),
      model_aic = (\<lambda>fitted. 0),
      model_summary_text = (\<lambda>fitted. ''ARIMA(1,0,0)''),
      str_timestamp = (\<lambda>t. case t of NaT \<Rightarrow> ''NaT'' | Ts k \<Rightarrow> str_int k),
      future_dates = (\<lambda>ix n. case stamps ix of
                         [] \<Rightarrow> Inl IndexError
                       | t # ts \<Rightarrow> (case last (t # ts) of
                                     NaT \<Rightarrow> Inl (LibraryError ''NaT'')
                                   | Ts k \<Rightarrow> Inr (map (\<lambda>i. str_int (k + int i)) [1..<Suc (nat n)])))\<rparr>"

definition example_params :: arima_params where
  "example_params = \<lparr>trace = True, max_p = 5, max_d = 2, max_q = 5\<rparr>"

definition new_session :: "unit model_service" where
  "new_session =
     \<lparr>model = None, model_info = None, training_data = None, testing_data = None,
      predictions = None, actual_values = None\<rparr>"

text \<open>A session in four calls: train with test data, predict, train again without test
  data, predict two periods.\<close>

definition session_trained :: "unit model_service" where
  "session_trained =
     fst (train_arima example_library example_params new_session example_frame ''Close'' []
            (Some example_frame))"

definition session_predicted :: "unit model_service" where
  "session_predicted = fst (predict example_library session_trained None None)"

definition session_retrained :: "unit model_service" where
  "session_retrained =
     fst (train_arima example_library example_params session_predicted example_frame ''Close'' []
            None)"

definition new_engineer :: feature_engineer where
  "new_engineer = \<lparr>data = None, generated_features = []\<rparr>"

section \<open>Verification of split\_data\<close>

subsection \<open>Row selection and the cut position\<close>

lemma len_take_rows: "len (take_rows ps df) = length ps"
  by (cases "index df") (simp_all add: len_def take_rows_def)

lemma len_mask_rows: "len (mask_rows keep df) = length (filter keep [0..<len df])"
  by (simp add: mask_rows_def len_take_rows)



lemma py_int_nonneg: "0 \<le> x \<Longrightarrow> py_int x = \<lfloor>x\<rfloor>"
  by (simp add: py_int_def)









lemma len_stamps: "is_DatetimeIndex ix \<Longrightarrow> length (stamps ix) = index_length ix"
  by (cases ix) simp_all







subsection \<open>The partition (C1)\<close>




subsection \<open>Degenerate ratios (C3)\<close>

text \<open>
  Claim C3, as the code has it.  \<open>split_data\<close> does not validate the ratio.  With a table
  loaded, the positional path returns a pair for every ratio (for \<open>r \<ge> 1\<close> the whole table
  and an empty testing part, for \<open>r = 0\<close> an empty training part and the whole table); the
  date path fails for \<open>r \<ge> 1\<close> with the index error of \<open>index[split_index]\<close>, and for
  \<open>r = 0\<close> on a table with at least one row it returns the pair cut at the first timestamp.
\<close>

theorem split_data_degenerate_ratio:
  assumes loaded: "current_data self = Some df"
  shows "if method = ''date_based'' \<and> is_DatetimeIndex (index df) then
           (1 \<le> r \<longrightarrow> split_data self r method = Inl IndexError) \<and>
           (r = 0 \<and> 0 < len df \<longrightarrow>
              split_data self r method =
                Inr (mask_rows (\<lambda>i. ts_lt (stamps (index df) ! i) (stamps (index df) ! 0)) df,
                     mask_rows (\<lambda>i. ts_ge (stamps (index df) ! i) (stamps (index df) ! 0)) df))
         else
           (\<exists>pair. split_data self r method = Inr pair) \<and>
           (1 \<le> r \<longrightarrow>
              split_data self r method = Inr (take_rows [0..<len df] df, take_rows [] df)) \<and>
           (r = 0 \<longrightarrow>
              split_data self r method = Inr (take_rows [] df, take_rows [0..<len df] df))"
proof (cases "method = ''date_based'' \<and> is_DatetimeIndex (index df)")
  case True
  have lts: "length (stamps (index df)) = len df"
    using True by (simp add: len_def len_stamps)
  have big: "split_data self r method = Inl IndexError" if "1 \<le> r"
  proof -
    have "real (len df) \<le> real (len df) * r" using that by (simp add: mult_le_cancel_left1)
    then have k: "int (len df) \<le> \<lfloor>real (len df) * r\<rfloor>" by (simp add: le_floor_iff)
    have nn: "0 \<le> real (len df) * r" using that by simp
    then have pk: "py_int (real (len df) * r) = \<lfloor>real (len df) * r\<rfloor>" by (simp add: py_int_def)
    have "\<not> \<lfloor>real (len df) * r\<rfloor> < 0" using nn by simp
    then have "py_getitem (stamps (index df)) \<lfloor>real (len df) * r\<rfloor> = Inl IndexError"
      using k lts unfolding py_getitem_def Let_def by auto
    then show ?thesis using True loaded pk by (simp add: split_data_def Let_def)
  qed
  have zero: "split_data self r method =
      Inr (mask_rows (\<lambda>i. ts_lt (stamps (index df) ! i) (stamps (index df) ! 0)) df,
           mask_rows (\<lambda>i. ts_ge (stamps (index df) ! i) (stamps (index df) ! 0)) df)"
    if "r = 0" "0 < len df"
  proof -
    have "py_getitem (stamps (index df)) 0 = Inr (stamps (index df) ! 0)"
      using that lts by (simp add: py_getitem_def Let_def)
    then show ?thesis using True loaded that by (simp add: split_data_def Let_def py_int_def)
  qed
  show ?thesis unfolding if_P[OF True] using big zero by blast
next
  case False
  have gen: "split_data self r method =
      Inr (iloc_to (py_int (real (len df) * r)) df, iloc_from (py_int (real (len df) * r)) df)"
    using False loaded by (auto simp: split_data_def Let_def)
  have big: "split_data self r method = Inr (take_rows [0..<len df] df, take_rows [] df)"
    if "1 \<le> r"
  proof -
    have "real (len df) \<le> real (len df) * r" using that by (simp add: mult_le_cancel_left1)
    then have k: "int (len df) \<le> \<lfloor>real (len df) * r\<rfloor>" by (simp add: le_floor_iff)
    have "0 \<le> real (len df) * r" using that by simp
    then have pk: "py_int (real (len df) * r) = \<lfloor>real (len df) * r\<rfloor>" by (simp add: py_int_def)
    have "\<not> \<lfloor>real (len df) * r\<rfloor> < 0" using k by linarith
    then have "slice_bound (len df) \<lfloor>real (len df) * r\<rfloor> = len df"
      using k unfolding slice_bound_def by auto
    then show ?thesis unfolding gen pk by (simp add: iloc_to_def iloc_from_def)
  qed
  have zero: "split_data self r method = Inr (take_rows [] df, take_rows [0..<len df] df)"
    if "r = 0"
    unfolding gen using that by (simp add: iloc_to_def iloc_from_def py_int_def slice_bound_def)
  show ?thesis unfolding if_not_P[OF False] using gen big zero by blast
qed

theorem split_data_degenerate_ratio_witness:
  "current_data example_service = Some example_frame \<and>
   split_data example_service 1 ''date_based'' = Inl IndexError \<and>
   split_data example_service 1 ''index_based'' =
     Inr (take_rows [0..<len example_frame] example_frame, take_rows [] example_frame)"
proof -
  have h: "current_data example_service = Some example_frame"
    by (simp add: example_service_def)
  have dt: "is_DatetimeIndex (index example_frame)" by (simp add: example_frame_def)
  show ?thesis
    using h dt split_data_degenerate_ratio[OF h, of "''date_based''" 1]
      split_data_degenerate_ratio[OF h, of "''index_based''" 1]
    by simp
qed

text \<open>The claim as stated, that a ratio \<open>r \<le> 0\<close> is rejected, fails at \<open>r = 0\<close>: the
  call returns an empty training part and the whole table as testing part.\<close>

theorem split_data_degenerate_ratio_counterexample:
  "split_data example_service 0 ''date_based'' =
     Inr (\<lparr>index = DatetimeIndex [], cols = [(''Close'', [])]\<rparr>, example_frame)"
  by (simp add: split_data_def example_service_def example_frame_def py_int_def py_getitem_def
      mask_rows_def take_rows_def len_def Let_def upt_rec)

subsection \<open>Non-empty parts (C9)\<close>




section \<open>Verification of calculate\_metrics\<close>

subsection \<open>Filtering by the validity mask\<close>

lemma select_Cons: "select (k # ks) (x # xs) = (if k then x # select ks xs else select ks xs)"
  by (simp add: select_def)

lemma select_Nil: "select [] xs = []" "select ks [] = []"
  by (simp_all add: select_def)

lemma valid_mask_Cons:
  "valid_mask (p # ps) (a # as) = (isfinite p \<and> isfinite a) # valid_mask ps as"
  by (simp add: valid_mask_def)

lemma valid_mask_Nil: "valid_mask [] as = []" "valid_mask ps [] = []"
  by (simp_all add: valid_mask_def)

lemma select_valid_fst:
  "length ps = length as \<Longrightarrow>
   select (valid_mask ps as) ps = map fst (filter both_finite (zip ps as))"
  by (induction ps as rule: list_induct2)
     (simp_all add: select_Nil valid_mask_Nil valid_mask_Cons select_Cons both_finite_def)

lemma select_valid_snd:
  "length ps = length as \<Longrightarrow>
   select (valid_mask ps as) as = map snd (filter both_finite (zip ps as))"
  by (induction ps as rule: list_induct2)
     (simp_all add: select_Nil valid_mask_Nil valid_mask_Cons select_Cons both_finite_def)

lemma any_valid_mask: "any (valid_mask ps as) = (filter both_finite (zip ps as) \<noteq> [])"
proof -
  have "list_ex id (map2 (\<lambda>p a. isfinite p \<and> isfinite a) ps as)
      = (\<exists>x \<in> set (zip ps as). both_finite x)"
    by (simp add: list_ex_iff both_finite_def case_prod_beta)
  then show ?thesis
    by (simp add: any_def valid_mask_def filter_empty_conv)
qed

lemma finite_pairs_Nil: "(finite_pairs ps as = []) = (filter both_finite (zip ps as) = [])"
  by (simp add: finite_pairs_def)

lemma clean_pred_finite:
  "\<not> any (map (\<lambda>v. \<not> isfinite v) (map fst (filter both_finite (zip ps as))))"
  by (auto simp: any_def list_ex_iff both_finite_def)

lemma clean_actual_finite:
  "\<not> any (map (\<lambda>v. \<not> isfinite v) (map snd (filter both_finite (zip ps as))))"
  by (auto simp: any_def list_ex_iff both_finite_def)

lemma real_of_clean:
  "map real_of (map fst (filter both_finite (zip ps as))) = map fst (finite_pairs ps as)"
  "map real_of (map snd (filter both_finite (zip ps as))) = map snd (finite_pairs ps as)"
  by (simp_all add: finite_pairs_def comp_def)

lemma zip_take_min:
  "zip (take (min (length ps) (length as)) ps) (take (min (length ps) (length as)) as) = zip ps as"
  by (metis take_zip length_zip take_all order_refl)

lemma finite_pairs_take:
  "finite_pairs (take (min (length ps) (length as)) ps) (take (min (length ps) (length as)) as)
     = finite_pairs ps as"
  by (simp add: finite_pairs_def zip_take_min)

text \<open>The method in closed form.\<close>

lemma metrics_of_eq:
  "metrics_of preds actuals =
     (let n = min (length preds) (length actuals);
          pv = take n preds; av = take n actuals;
          fp = finite_pairs preds actuals
      in if n = 0 then Inl NoValuesForMetrics
         else if fp = [] then
           Inl (NoValidFinite n (length (filter isnan pv)) (length (filter isnan av))
                  (length (filter isinf pv)) (length (filter isinf av)))
         else Inr \<lparr>mse = mean_squared_error (map snd fp) (map fst fp),
                   rmse = sqrt (mean_squared_error (map snd fp) (map fst fp)),
                   mae = mean_absolute_error (map snd fp) (map fst fp),
                   mape = calc_mape (map snd fp) (map fst fp),
                   directional_accuracy = calc_directional_accuracy (map snd fp) (map fst fp)\<rparr>)"
proof -
  define n where "n = min (length preds) (length actuals)"
  define pv where "pv = take n preds"
  define av where "av = take n actuals"
  have len: "length pv = length av" by (simp add: pv_def av_def n_def)
  have lpv: "length pv = n" by (simp add: pv_def n_def)
  have z: "zip pv av = zip preds actuals"
    unfolding pv_def av_def n_def by (rule zip_take_min)
  have fp: "finite_pairs pv av = finite_pairs preds actuals"
    by (simp add: finite_pairs_def z)
  have sp: "select (valid_mask pv av) pv = map fst (filter both_finite (zip pv av))"
    by (rule select_valid_fst[OF len])
  have sa: "select (valid_mask pv av) av = map snd (filter both_finite (zip pv av))"
    by (rule select_valid_snd[OF len])
  show ?thesis
  proof (cases "n = 0")
    case True
    then show ?thesis by (simp add: metrics_of_def Let_def n_def)
  next
    case n0: False
    show ?thesis
    proof (cases "finite_pairs preds actuals = []")
      case True
      then have "\<not> any (valid_mask pv av)"
        by (simp add: any_valid_mask finite_pairs_Nil z)
      then show ?thesis
        using n0 True lpv
        by (simp add: metrics_of_def Let_def n_def[symmetric] pv_def[symmetric] av_def[symmetric])
    next
      case False
      then have nonempty: "filter both_finite (zip pv av) \<noteq> []"
        by (simp add: finite_pairs_Nil z)
      then have a: "any (valid_mask pv av)" by (simp add: any_valid_mask)
      have pc: "map real_of (select (valid_mask pv av) pv) = map fst (finite_pairs preds actuals)"
        unfolding sp real_of_clean fp ..
      have ac: "map real_of (select (valid_mask pv av) av) = map snd (finite_pairs preds actuals)"
        unfolding sa real_of_clean fp ..
      have c1: "\<not> any (map (\<lambda>v. \<not> isfinite v) (select (valid_mask pv av) pv))"
        unfolding sp by (rule clean_pred_finite)
      have c2: "\<not> any (map (\<lambda>v. \<not> isfinite v) (select (valid_mask pv av) av))"
        unfolding sa by (rule clean_actual_finite)
      have l: "length (select (valid_mask pv av) pv) \<noteq> 0"
        unfolding sp using nonempty by simp
      show ?thesis
        using n0 False a l c1 c2
        by (simp add: metrics_of_def Let_def n_def[symmetric] pv_def[symmetric] av_def[symmetric]
            pc ac del: length_0_conv map_map)
    qed
  qed
qed

subsection \<open>The metrics on the finite pairs\<close>

lemma select_map_self: "select (map f xs) xs = filter f xs"
  by (induction xs) (simp_all add: select_def)

lemma select_map_pairs:
  "select (map f (map snd fp)) (map fst fp) = map fst (filter (\<lambda>pa. f (snd pa)) fp)"
  by (induction fp) (simp_all add: select_def)

lemma filter_map_snd: "filter f (map snd fp) = map snd (filter (\<lambda>pa. f (snd pa)) fp)"
  by (induction fp) simp_all

lemma map2_snd_fst: "map2 g (map snd fp) (map fst fp) = map (\<lambda>pa. g (snd pa) (fst pa)) fp"
  by (induction fp) simp_all

lemma any_map: "any (map f xs) = (filter f xs \<noteq> [])"
  by (simp add: any_def list_ex_iff filter_empty_conv)

lemma calc_mape_pairs:
  "calc_mape (map snd fp) (map fst fp) =
     (let nz = filter (\<lambda>pa. \<bar>snd pa\<bar> > 1 / 10 ^ 10) fp in
      if nz = [] then None
      else Some (mean (map (\<lambda>pa. \<bar>(snd pa - fst pa) / snd pa\<bar>) nz) * 100))"
proof -
  let ?f = "\<lambda>a::real. \<bar>a\<bar> > 1 / 10 ^ 10"
  let ?nz = "filter (\<lambda>pa. ?f (snd pa)) fp"
  have a: "any (non_zero_mask (map snd fp)) = (?nz \<noteq> [])"
    unfolding non_zero_mask_def any_map filter_map_snd by simp
  have s1: "select (non_zero_mask (map snd fp)) (map snd fp) = map snd ?nz"
    unfolding non_zero_mask_def select_map_self filter_map_snd ..
  have s2: "select (non_zero_mask (map snd fp)) (map fst fp) = map fst ?nz"
    unfolding non_zero_mask_def by (rule select_map_pairs)
  show ?thesis
    unfolding calc_mape_def Let_def a s1 s2 map2_snd_fst by simp
qed

lemma length_diff: "length (diff xs) = length xs - 1"
  by (simp add: diff_def)

lemma nth_diff: "i < length xs - 1 \<Longrightarrow> diff xs ! i = xs ! (i + 1) - xs ! i"
  by (simp add: diff_def nth_tl)

lemma direction_agreement:
  assumes "length ps = length ys"
  shows "map2 (=) (map (\<lambda>d. d > 0) (diff ys)) (map (\<lambda>d. d > 0) (diff ps))
           = map (rise_agreement ys ps) [0..<length ys - 1]"
  by (rule nth_equalityI) (simp_all add: length_diff nth_diff assms rise_agreement_def)

lemma sum_indicator: "sum_list (map (\<lambda>b. if b then 1 else 0) bs) = real (length (filter id bs))"
  by (induction bs) simp_all

lemma mean_bool_count: "mean_bool bs = real (length (filter id bs)) / real (length bs)"
  by (simp add: mean_bool_def mean_def sum_indicator)

lemma length_filter_id_map: "length (filter id (map f xs)) = length (filter f xs)"
  by (induction xs) simp_all

lemma calc_directional_accuracy_eq:
  assumes "length ps = length ys"
  shows "calc_directional_accuracy ys ps =
     (if length ys > 1 then Some (percentage (rise_agreement ys ps) (length ys - 1)) else None)"
proof -
  have e: "map2 (=) (map (\<lambda>d. d > 0) (diff ys)) (map (\<lambda>d. d > 0) (diff ps))
      = map (rise_agreement ys ps) [0..<length ys - 1]"
    by (rule direction_agreement[OF assms])
  have m: "mean_bool (map (rise_agreement ys ps) [0..<length ys - 1]) * 100
      = percentage (rise_agreement ys ps) (length ys - 1)"
    by (simp add: mean_bool_count length_filter_id_map percentage_def)
  show ?thesis
    unfolding calc_directional_accuracy_def Let_def e m ..
qed

lemma nonfinite_count:
  "length (filter isnan xs) + length (filter isinf xs) = length (filter (\<lambda>v. \<not> isfinite v) xs)"
proof (induction xs)
  case Nil
  then show ?case by simp
next
  case (Cons x xs)
  then show ?case by (cases x) simp_all
qed

lemma length_valid_mask: "length (valid_mask ps as) = min (length ps) (length as)"
  by (simp add: valid_mask_def)

lemma nth_valid_mask:
  "i < length ps \<Longrightarrow> i < length as \<Longrightarrow>
   valid_mask ps as ! i = (isfinite (ps ! i) \<and> isfinite (as ! i))"
  by (simp add: valid_mask_def)

lemma length_finite_pairs:
  "length (finite_pairs ps as) = length (filter id (valid_mask ps as))"
proof -
  have "length (filter id (map (\<lambda>(p, a). isfinite p \<and> isfinite a) zs))
      = length (filter both_finite zs)" for zs
    by (induction zs) (auto simp: both_finite_def)
  then show ?thesis by (simp add: finite_pairs_def valid_mask_def)
qed

lemma calculate_metrics_stored:
  "predictions self = Some p \<Longrightarrow> actual_values self = Some a \<Longrightarrow>
   calculate_metrics self = metrics_of (values_of p) (values_of a)"
  by (simp add: calculate_metrics_def)

lemma mse_pairs:
  "mean_squared_error (map snd fp) (map fst fp) = mean (map (\<lambda>pa. (snd pa - fst pa)\<^sup>2) fp)"
  by (simp add: mean_squared_error_def map2_snd_fst)

lemma mae_pairs:
  "mean_absolute_error (map snd fp) (map fst fp) = mean (map (\<lambda>pa. \<bar>snd pa - fst pa\<bar>) fp)"
  by (simp add: mean_absolute_error_def map2_snd_fst)

lemma metrics_of_some:
  assumes "finite_pairs preds actuals \<noteq> []"
  shows "metrics_of preds actuals =
     Inr \<lparr>mse = mean_squared_error (map snd (finite_pairs preds actuals))
                  (map fst (finite_pairs preds actuals)),
          rmse = sqrt (mean_squared_error (map snd (finite_pairs preds actuals))
                  (map fst (finite_pairs preds actuals))),
          mae = mean_absolute_error (map snd (finite_pairs preds actuals))
                  (map fst (finite_pairs preds actuals)),
          mape = calc_mape (map snd (finite_pairs preds actuals))
                  (map fst (finite_pairs preds actuals)),
          directional_accuracy = calc_directional_accuracy (map snd (finite_pairs preds actuals))
                  (map fst (finite_pairs preds actuals))\<rparr>"
proof -
  have "zip preds actuals \<noteq> []" using assms by (auto simp: finite_pairs_def)
  then have "min (length preds) (length actuals) \<noteq> 0"
    by (cases preds; cases actuals) simp_all
  then show ?thesis using assms unfolding metrics_of_eq Let_def by simp
qed

lemma metrics_of_none:
  assumes "finite_pairs preds actuals = []" "0 < min (length preds) (length actuals)"
  shows "metrics_of preds actuals =
     Inl (NoValidFinite (min (length preds) (length actuals))
            (length (filter isnan (take (min (length preds) (length actuals)) preds)))
            (length (filter isnan (take (min (length preds) (length actuals)) actuals)))
            (length (filter isinf (take (min (length preds) (length actuals)) preds)))
            (length (filter isinf (take (min (length preds) (length actuals)) actuals))))"
  using assms unfolding metrics_of_eq Let_def by simp

lemma stored_fields:
  "predictions (stored ps as) = Some \<lparr>values_of = ps, labels_of = RangeIndex (int (length ps))\<rparr>"
  "actual_values (stored ps as) = Some \<lparr>values_of = as, labels_of = RangeIndex (int (length as))\<rparr>"
  by (simp_all add: stored_def)

subsection \<open>Validity mask, error metrics and the diagnostic (C7)\<close>

text \<open>
  Claim C7.  For stored forecast and actual arrays of positive common length \<open>n\<close>, both cut
  to \<open>n\<close>: the validity mask has \<open>n\<close> entries and is true exactly at the positions where
  both arrays hold a finite value, and the finite pairs are the values at those positions.
  When the mask selects no position, \<open>calculate_metrics\<close> fails with the error whose
  diagnostic carries the total and the NaN and infinity counts of each array, which add up
  to the number of non-finite values of that array.  Otherwise it returns metrics whose MSE
  and MAE are the means of the squared and absolute errors over the finite pairs only, and
  whose RMSE is the square root of the MSE.
\<close>

theorem calculate_metrics_finite_subset:
  assumes "predictions self = Some p" and "actual_values self = Some a"
    and "0 < min (length (values_of p)) (length (values_of a))"
  shows "let n = min (length (values_of p)) (length (values_of a));
             pv = take n (values_of p); av = take n (values_of a);
             fp = finite_pairs pv av
         in length (valid_mask pv av) = n \<and>
            (\<forall>i<n. valid_mask pv av ! i = (isfinite (pv ! i) \<and> isfinite (av ! i))) \<and>
            length fp = length (filter id (valid_mask pv av)) \<and>
            (if fp = [] then
               calculate_metrics self =
                 Inl (NoValidFinite n (length (filter isnan pv)) (length (filter isnan av))
                        (length (filter isinf pv)) (length (filter isinf av))) \<and>
               length (filter isnan pv) + length (filter isinf pv)
                 = length (filter (\<lambda>v. \<not> isfinite v) pv) \<and>
               length (filter isnan av) + length (filter isinf av)
                 = length (filter (\<lambda>v. \<not> isfinite v) av)
             else
               (\<exists>m. calculate_metrics self = Inr m \<and>
                  mse m = mean (map (\<lambda>pa. (snd pa - fst pa)\<^sup>2) fp) \<and>
                  rmse m = sqrt (mse m) \<and>
                  mae m = mean (map (\<lambda>pa. \<bar>snd pa - fst pa\<bar>) fp)))"
proof -
  define n where "n = min (length (values_of p)) (length (values_of a))"
  define pv where "pv = take n (values_of p)"
  define av where "av = take n (values_of a)"
  define fp where "fp = finite_pairs pv av"
  have lp: "length pv = n" and la: "length av = n"
    by (simp_all add: pv_def av_def n_def)
  have fp_eq: "fp = finite_pairs (values_of p) (values_of a)"
    unfolding fp_def pv_def av_def n_def by (rule finite_pairs_take)
  have cm: "calculate_metrics self = metrics_of (values_of p) (values_of a)"
    by (rule calculate_metrics_stored[OF assms(1,2)])
  have 1: "length (valid_mask pv av) = n"
    by (simp add: length_valid_mask lp la)
  have 2: "\<forall>i<n. valid_mask pv av ! i = (isfinite (pv ! i) \<and> isfinite (av ! i))"
    by (simp add: nth_valid_mask lp la)
  have 3: "length fp = length (filter id (valid_mask pv av))"
    unfolding fp_def by (rule length_finite_pairs)
  have 4: "calculate_metrics self =
        Inl (NoValidFinite n (length (filter isnan pv)) (length (filter isnan av))
               (length (filter isinf pv)) (length (filter isinf av)))" if "fp = []"
    unfolding cm pv_def av_def n_def
    by (rule metrics_of_none) (use that fp_eq assms(3) in simp_all)
  have 5: "\<exists>m. calculate_metrics self = Inr m \<and>
        mse m = mean (map (\<lambda>pa. (snd pa - fst pa)\<^sup>2) fp) \<and>
        rmse m = sqrt (mse m) \<and>
        mae m = mean (map (\<lambda>pa. \<bar>snd pa - fst pa\<bar>) fp)" if "fp \<noteq> []"
  proof -
    have ne: "finite_pairs (values_of p) (values_of a) \<noteq> []" using that fp_eq by simp
    show ?thesis
      unfolding cm metrics_of_some[OF ne] fp_eq[symmetric] mse_pairs mae_pairs by simp
  qed
  have "length (valid_mask pv av) = n \<and>
        (\<forall>i<n. valid_mask pv av ! i = (isfinite (pv ! i) \<and> isfinite (av ! i))) \<and>
        length fp = length (filter id (valid_mask pv av)) \<and>
        (if fp = [] then
           calculate_metrics self =
             Inl (NoValidFinite n (length (filter isnan pv)) (length (filter isnan av))
                    (length (filter isinf pv)) (length (filter isinf av))) \<and>
           length (filter isnan pv) + length (filter isinf pv)
             = length (filter (\<lambda>v. \<not> isfinite v) pv) \<and>
           length (filter isnan av) + length (filter isinf av)
             = length (filter (\<lambda>v. \<not> isfinite v) av)
         else
           (\<exists>m. calculate_metrics self = Inr m \<and>
              mse m = mean (map (\<lambda>pa. (snd pa - fst pa)\<^sup>2) fp) \<and>
              rmse m = sqrt (mse m) \<and>
              mae m = mean (map (\<lambda>pa. \<bar>snd pa - fst pa\<bar>) fp)))"
    using 1 2 3 4 5 nonfinite_count[of pv] nonfinite_count[of av] by presburger
  then show ?thesis
    unfolding Let_def fp_def av_def pv_def n_def .
qed

text \<open>Instances: an actual array with one NaN has exactly that position dropped, and a
  pair with no common finite position is rejected with the counts of both arrays.\<close>

theorem calculate_metrics_finite_subset_witness:
  "valid_mask [Fin 1, Fin 2, Fin 3] [Fin 1, NaN, Fin 4] = [True, False, True] \<and>
   (\<exists>m. calculate_metrics (stored [Fin 1, Fin 2, Fin 3] [Fin 1, NaN, Fin 4]) = Inr m \<and>
      mse m = 1 / 2 \<and> rmse m = sqrt (mse m) \<and> mae m = 1 / 2) \<and>
   calculate_metrics (stored [NaN, Fin 1] [Fin 2, PInf]) = Inl (NoValidFinite 2 1 0 0 1)"
proof -
  have a: "valid_mask [Fin 1, Fin 2, Fin 3] [Fin 1, NaN, Fin 4] = [True, False, True]"
    by (simp add: valid_mask_def)
  have b: "\<exists>m. calculate_metrics (stored [Fin 1, Fin 2, Fin 3] [Fin 1, NaN, Fin 4]) = Inr m \<and>
      mse m = 1 / 2 \<and> rmse m = sqrt (mse m) \<and> mae m = 1 / 2"
    using calculate_metrics_finite_subset[OF stored_fields,
        of "[Fin 1, Fin 2, Fin 3]" "[Fin 1, NaN, Fin 4]"]
    by (simp add: Let_def finite_pairs_def both_finite_def mean_def)
  have c: "calculate_metrics (stored [NaN, Fin 1] [Fin 2, PInf]) = Inl (NoValidFinite 2 1 0 0 1)"
    using calculate_metrics_finite_subset[OF stored_fields, of "[NaN, Fin 1]" "[Fin 2, PInf]"]
    by (simp add: Let_def finite_pairs_def both_finite_def)
  from a b c show ?thesis by blast
qed

subsection \<open>MAPE (C6)\<close>

text \<open>
  Claim C6.  Whenever some position holds finite values in both arrays,
  \<open>calculate_metrics\<close> returns metrics, and their MAPE is computed over the finite pairs
  with \<open>|actual| > 1e-10\<close> only: the mean of \<open>|(actual - predicted) / actual|\<close> over them,
  times 100; when no such pair exists the MAPE is the absent value \<open>None\<close>, not zero and
  not an error.
\<close>

theorem calculate_metrics_mape:
  assumes "predictions self = Some p" and "actual_values self = Some a"
    and "finite_pairs (values_of p) (values_of a) \<noteq> []"
  shows "let nz = filter (\<lambda>pa. \<bar>snd pa\<bar> > 1 / 10 ^ 10)
                    (finite_pairs (values_of p) (values_of a))
         in \<exists>m. calculate_metrics self = Inr m \<and>
              mape m = (if nz = [] then None
                        else Some (mean (map (\<lambda>pa. \<bar>(snd pa - fst pa) / snd pa\<bar>) nz) * 100))"
  unfolding calculate_metrics_stored[OF assms(1,2)] metrics_of_some[OF assms(3)] calc_mape_pairs
  by (simp add: Let_def)

text \<open>Instances: forecast \<open>[1,2,3]\<close> against actual \<open>[1,2,4]\<close> has the MAPE
  \<open>mean [0, 0, 25]\<close>; an all-zero actual series has none.\<close>

theorem calculate_metrics_mape_witness:
  "(\<exists>m. calculate_metrics (stored [Fin 1, Fin 2, Fin 3] [Fin 1, Fin 2, Fin 4]) = Inr m \<and>
      mape m = Some (25 / 3)) \<and>
   (\<exists>m. calculate_metrics (stored [Fin 1, Fin 2] [Fin 0, Fin 0]) = Inr m \<and> mape m = None)"
proof -
  have a: "\<exists>m. calculate_metrics (stored [Fin 1, Fin 2, Fin 3] [Fin 1, Fin 2, Fin 4]) = Inr m \<and>
      mape m = Some (25 / 3)"
    using calculate_metrics_mape[OF stored_fields,
        of "[Fin 1, Fin 2, Fin 3]" "[Fin 1, Fin 2, Fin 4]"]
    by (simp add: Let_def finite_pairs_def both_finite_def mean_def)
  have b: "\<exists>m. calculate_metrics (stored [Fin 1, Fin 2] [Fin 0, Fin 0]) = Inr m \<and> mape m = None"
    using calculate_metrics_mape[OF stored_fields, of "[Fin 1, Fin 2]" "[Fin 0, Fin 0]"]
    by (simp add: Let_def finite_pairs_def both_finite_def mean_def)
  from a b show ?thesis by blast
qed

subsection \<open>Directional accuracy (C5)\<close>

text \<open>
  Claim C5, as the code has it.  Whenever some position holds finite values in both arrays,
  \<open>calculate_metrics\<close> returns metrics.  With at least two finite pairs the directional
  accuracy is the percentage of consecutive positions \<open>i\<close> where
  \<open>actual[i+1] - actual[i] > 0\<close> holds exactly when \<open>pred[i+1] - pred[i] > 0\<close> does (both
  series rise, or neither does: a flat step and a falling step count as the same direction);
  with fewer than two finite pairs it is the absent value \<open>None\<close>.
\<close>

theorem calculate_metrics_directional_accuracy:
  assumes "predictions self = Some p" and "actual_values self = Some a"
    and "finite_pairs (values_of p) (values_of a) \<noteq> []"
  shows "let fp = finite_pairs (values_of p) (values_of a) in
         \<exists>m. calculate_metrics self = Inr m \<and>
           directional_accuracy m =
             (if length fp > 1
              then Some (percentage (rise_agreement (map snd fp) (map fst fp)) (length fp - 1))
              else None)"
proof -
  let ?fp = "finite_pairs (values_of p) (values_of a)"
  have "calc_directional_accuracy (map snd ?fp) (map fst ?fp) =
      (if length ?fp > 1
       then Some (percentage (rise_agreement (map snd ?fp) (map fst ?fp)) (length ?fp - 1))
       else None)"
    using calc_directional_accuracy_eq[of "map fst ?fp" "map snd ?fp"] by simp
  then show ?thesis
    unfolding calculate_metrics_stored[OF assms(1,2)] metrics_of_some[OF assms(3)]
    by (simp add: Let_def)
qed

text \<open>Instances: actual \<open>[1,2,1,3]\<close> against predicted \<open>[1,3,0,4]\<close> yields 100 percent;
  a single finite pair yields no directional accuracy.\<close>

theorem calculate_metrics_directional_accuracy_witness:
  "(\<exists>m. calculate_metrics (stored [Fin 1, Fin 3, Fin 0, Fin 4] [Fin 1, Fin 2, Fin 1, Fin 3]) = Inr m \<and>
      directional_accuracy m = Some 100) \<and>
   (\<exists>m. calculate_metrics (stored [Fin 1, NaN] [Fin 1, Fin 2]) = Inr m \<and>
      directional_accuracy m = None)"
proof -
  have a: "\<exists>m. calculate_metrics (stored [Fin 1, Fin 3, Fin 0, Fin 4] [Fin 1, Fin 2, Fin 1, Fin 3]) = Inr m \<and>
      directional_accuracy m = Some 100"
    using calculate_metrics_directional_accuracy[OF stored_fields,
        of "[Fin 1, Fin 3, Fin 0, Fin 4]" "[Fin 1, Fin 2, Fin 1, Fin 3]"]
    by (simp add: Let_def finite_pairs_def both_finite_def percentage_def rise_agreement_def upt_rec)
  have b: "\<exists>m. calculate_metrics (stored [Fin 1, NaN] [Fin 1, Fin 2]) = Inr m \<and>
      directional_accuracy m = None"
    using calculate_metrics_directional_accuracy[OF stored_fields,
        of "[Fin 1, NaN]" "[Fin 1, Fin 2]"]
    by (simp add: Let_def finite_pairs_def both_finite_def)
  from a b show ?thesis by blast
qed

text \<open>
  The claim as stated compares the signs of the changes.  On actual \<open>[1,1]\<close> against
  predicted \<open>[2,1]\<close> the signs differ (no change against a fall), so the stated fraction is
  0 percent, while the code reports 100 percent.
\<close>

theorem calculate_metrics_directional_accuracy_counterexample:
  "calculate_metrics (stored [Fin 2, Fin 1] [Fin 1, Fin 1]) =
     Inr \<lparr>mse = 1 / 2, rmse = sqrt (1 / 2), mae = 1 / 2, mape = Some 50,
          directional_accuracy = Some 100\<rparr> \<and>
   spec_directional_accuracy [1, 1] [2, 1] = Some 0"
  by (simp add: calculate_metrics_def stored_def metrics_of_def Let_def valid_mask_def any_def
      select_def mean_squared_error_def mean_absolute_error_def mean_def calc_mape_def
      non_zero_mask_def calc_directional_accuracy_def diff_def mean_bool_def
      spec_directional_accuracy_def percentage_def sign_agreement_def)

section \<open>Verification of the model service\<close>

subsection \<open>The example session\<close>

lemma str_int_digit: "str_int 1 = ''1''" "str_int 2 = ''2''" "str_int 3 = ''3''"
  "str_int 4 = ''4''" "str_int 5 = ''5''"
  by (simp_all add: str_int_def str_nat.simps)

lemma session_trained_eq:
  "session_trained =
     \<lparr>model = Some (),
      model_info = Some \<lparr>model_type = ''ARIMA'', parameters = (1, 0, 0), aic = Some 0,
                         training_rows = 4, testing_rows = 4, features_used = [],
                         target_column = ''Close'', model_summary = Some ''ARIMA(1,0,0)''\<rparr>,
      training_data = Some example_frame, testing_data = Some example_frame,
      predictions = None, actual_values = None\<rparr>"
  by (simp add: session_trained_def train_arima_def example_library_def new_session_def
      example_frame_def columns_def getitem_def Let_def len_def)

lemma session_predicted_eq:
  "session_predicted =
     session_trained
       \<lparr>predictions := Some \<lparr>values_of = [Fin 100, Fin 100, Fin 100, Fin 100],
                              labels_of = Dates [''1'', ''2'', ''2'', ''3'']\<rparr>,
        actual_values := Some \<lparr>values_of = [Fin 10, Fin 11, Fin 12, Fin 13],
                                labels_of = Dates [''1'', ''2'', ''2'', ''3'']\<rparr>\<rparr>"
  unfolding session_predicted_def session_trained_eq
  by (simp add: predict_def dates_and_actual_def store_forecast_def Series_def
      example_library_def example_frame_def getitem_def len_def iloc_to_def take_rows_def
      slice_bound_def str_int_digit numeral_eq_Suc)

lemma session_retrained_eq:
  "session_retrained =
     session_predicted
       \<lparr>testing_data := None,
        model_info := Some \<lparr>model_type = ''ARIMA'', parameters = (1, 0, 0), aic = Some 0,
                         training_rows = 4, testing_rows = 0, features_used = [],
                         target_column = ''Close'', model_summary = Some ''ARIMA(1,0,0)''\<rparr>\<rparr>"
  unfolding session_retrained_def session_predicted_eq session_trained_eq
  by (simp add: train_arima_def example_library_def
      example_frame_def columns_def getitem_def Let_def len_def)

subsection \<open>Missing columns in train\_arima (C4)\<close>

text \<open>
  Claim C4, as the code has it.  When the target column or some feature column is absent
  from the training table, \<open>train_arima\<close> fails and leaves the whole session state (the
  model, its \<open>model_info\<close>, the stored training and testing data) as it was.  The target is
  checked first: when it is absent the error names the target column alone; otherwise the
  error names every absent feature column.
\<close>

theorem train_arima_missing_columns:
  assumes "target \<notin> set (columns training) \<or> \<not> set features \<subseteq> set (columns training)"
  shows "train_arima lib params self training target features test_data =
     (self, Inl (if target \<notin> set (columns training) then TargetNotFound target
                 else FeaturesNotFound (filter (\<lambda>f. f \<notin> set (columns training)) features)))
     \<and> set (filter (\<lambda>f. f \<notin> set (columns training)) features)
         = set features - set (columns training)"
proof (cases "target \<notin> set (columns training)")
  case True
  then show ?thesis by (auto simp: train_arima_def)
next
  case False
  with assms have "filter (\<lambda>f. f \<notin> set (columns training)) features \<noteq> []"
    by (auto simp: filter_empty_conv)
  with False show ?thesis by (auto simp: train_arima_def Let_def)
qed

theorem train_arima_missing_columns_witness:
  "train_arima example_library example_params session_predicted example_frame ''Close''
       [''High'', ''Close'', ''Low''] None =
     (session_predicted, Inl (FeaturesNotFound [''High'', ''Low''])) \<and>
   train_arima example_library example_params session_predicted example_frame ''VWAP'' [] None =
     (session_predicted, Inl (TargetNotFound ''VWAP''))"
proof -
  have c: "columns example_frame = [''Close'']" by (simp add: columns_def example_frame_def)
  show ?thesis
    using train_arima_missing_columns[of "''Close''" example_frame "[''High'', ''Close'', ''Low'']"
        example_library example_params session_predicted None]
      train_arima_missing_columns[of "''VWAP''" example_frame "[]"
        example_library example_params session_predicted None]
    by (simp add: c)
qed

text \<open>The claim as stated, that the error names every missing column, fails when the
  target and a feature are both absent: the error names the target only.\<close>

theorem train_arima_missing_columns_counterexample:
  "train_arima example_library example_params session_predicted example_frame ''VWAP''
       [''High''] None =
     (session_predicted, Inl (TargetNotFound ''VWAP''))"
  by (simp add: train_arima_def columns_def example_frame_def)

subsection \<open>What predict stores (C8)\<close>

text \<open>A successful \<open>predict\<close> stores the new forecast; it stores the actual series only
  when there is a non-empty one, and otherwise keeps the series of an earlier call.\<close>

lemma store_forecast_success:
  assumes "store_forecast self forecast ds act n = (self', Inr res)"
  shows "\<exists>p. predictions self' = Some p \<and> values_of p = forecast \<and>
           forecast_values res = forecast \<and> actual res = act \<and> dates res = ds \<and>
           actual_values self' =
             (case act of
                Some (v # vs) \<Rightarrow> Some \<lparr>values_of = v # vs, labels_of = Dates ds\<rparr>
              | _ \<Rightarrow> actual_values self)"
  using assms
  by (auto simp: store_forecast_def Series_def Let_def
      split: sum.splits option.splits list.splits if_splits)

lemma predict_success_state:
  assumes "predict lib self n X = (self', Inr res)"
  shows "\<exists>p. predictions self' = Some p \<and> values_of p = forecast_values res \<and>
           actual_values self' =
             (case actual res of
                Some (v # vs) \<Rightarrow> Some \<lparr>values_of = v # vs, labels_of = Dates (dates res)\<rparr>
              | _ \<Rightarrow> actual_values self)"
proof -
  from assms obtain forecast ds act k where
    "store_forecast self forecast ds act k = (self', Inr res)"
    by (auto simp: predict_def split: option.splits sum.splits prod.splits)
  from store_forecast_success[OF this] show ?thesis by auto
qed

text \<open>
  Claim C8 says that after a successful \<open>predict\<close> the stored actual values are those of
  the new forecast, or absent when the new forecast has none.  The code evaluated on the
  example session: after training with test data, predicting, and training again without
  test data, a forecast of two periods comes with no actual series (\<open>actual = None\<close>), the
  stored predictions are the two new values, and the stored actual values are still the four
  values of the first forecast.
\<close>

theorem predict_keeps_stale_actual_values:
  "predict example_library session_retrained (Some 2) None =
     (session_retrained
        \<lparr>predictions := Some \<lparr>values_of = [Fin 100, Fin 100], labels_of = Dates [''4'', ''5'']\<rparr>\<rparr>,
      Inr \<lparr>forecast_values = [Fin 100, Fin 100], dates = [''4'', ''5''], actual = None,
           n_periods = 2\<rparr>) \<and>
   actual_values session_retrained =
     Some \<lparr>values_of = [Fin 10, Fin 11, Fin 12, Fin 13],
           labels_of = Dates [''1'', ''2'', ''2'', ''3'']\<rparr>"
  unfolding session_retrained_eq session_predicted_eq session_trained_eq
  by (simp add: predict_def dates_and_actual_def store_forecast_def Series_def
      example_library_def example_frame_def str_int_digit numeral_eq_Suc upt_rec)

section \<open>Verification of generate\_rolling\_features\<close>

subsection \<open>Feature names are unambiguous\<close>











subsection \<open>Splitting at the last underscore\<close>





subsection \<open>Columns of a frame\<close>













subsection \<open>Rolling windows\<close>


lemma rolling_negative: "w < 0 \<Longrightarrow> rolling agg w xs = Inl (WindowNegative w)"
  by (simp add: rolling_def)





subsection \<open>The loop body\<close>


lemma operation_body_unknown:
  "\<not> recognized operation \<Longrightarrow> operation_body col w operation s = Inr s"
  by (simp add: operation_body_def recognized_def)


subsection \<open>The invariant\<close>




subsection \<open>The three loops\<close>







subsection \<open>Windows, dropped rows and feature names (C2)\<close>



lemma generate_from_build:
  assumes "build_features data_in cols_in windows operations = Inr (aug, names, logs)"
  shows "generate_rolling_features self data_in cols_in windows (Some operations) =
      Inr (self\<lparr>data := Some (dropna aug), generated_features := names\<rparr>, dropna aug,
           if len aug - len (dropna aug) > 0
           then logs @ [Info_dropped_rows (len aug - len (dropna aug))] else logs)"
  using assms by (simp add: generate_rolling_features_def Let_def)


subsection \<open>Unrecognized operations (C10)\<close>

lemma for_each_filter:
  assumes "\<And>x s. \<not> P x \<Longrightarrow> body x s = Inr s"
  shows "for_each body xs s = for_each body (filter P xs) s"
proof (induction xs arbitrary: s)
  case Nil
  then show ?case by simp
next
  case (Cons x xs)
  show ?case
  proof (cases "P x")
    case True
    then show ?thesis using Cons.IH by (simp split: sum.splits)
  next
    case False
    then show ?thesis using Cons.IH assms[OF False] by simp
  qed
qed

lemma window_body_filter:
  "window_body col operations = window_body col (filter recognized operations)"
proof (intro ext)
  fix window s
  show "window_body col operations window s = window_body col (filter recognized operations) window s"
    unfolding window_body_def
    by (rule for_each_filter) (rule operation_body_unknown)
qed

lemma column_body_filter:
  "column_body windows operations = column_body windows (filter recognized operations)"
proof (intro ext)
  fix col s
  show "column_body windows operations col s
      = column_body windows (filter recognized operations) col s"
    unfolding column_body_def window_body_filter[of col operations] ..
qed

lemma build_features_filter:
  "build_features data_in cols_in windows operations
     = build_features data_in cols_in windows (filter recognized operations)"
  unfolding build_features_def column_body_filter[of windows operations] ..

text \<open>
  Claim C10.  An operation string outside mean, std, min, max leaves the loop state as it
  is: no error, no column, no feature name and no log entry.  A call of
  \<open>generate_rolling_features\<close> therefore returns exactly what the call without the
  unrecognized operations returns, so the recognized operations are processed as usual.
\<close>

theorem unknown_operations_ignored:
  "(\<not> recognized operation \<longrightarrow> operation_body col window operation s = Inr s) \<and>
   generate_rolling_features self data_in cols_in windows (Some operations)
     = generate_rolling_features self data_in cols_in windows
         (Some (filter recognized operations))"
proof -
  have "generate_rolling_features self data_in cols_in windows (Some operations)
     = generate_rolling_features self data_in cols_in windows
         (Some (filter recognized operations))"
    unfolding generate_rolling_features_def Let_def option.case
      build_features_filter[of data_in cols_in windows operations] ..
  then show ?thesis using operation_body_unknown by blast
qed

subsection \<open>The example frame with a rolling mean of window 2\<close>

lemma str2: "str_int 2 = ''2''"
  by (simp add: str_int_def str_nat.simps)

lemma roll_ex: "rolling agg_mean 2 [Some 10, Some 11, Some 12, Some 13]
   = Inr [None, Some (21 / 2), Some (23 / 2), Some (25 / 2)]"
  by (simp add: rolling_def window_at_def agg_mean_def mean_def upt_rec)

lemma build_ex:
  "build_features example_frame [''Close''] [2] [''mean''] =
     Inr (\<lparr>index = DatetimeIndex [Ts 1, Ts 2, Ts 2, Ts 3],
            cols = [(''Close'', [Some 10, Some 11, Some 12, Some 13]),
                    (''Close_rolling_mean_2'',
                     [None, Some (21 / 2), Some (23 / 2), Some (25 / 2)])]\<rparr>,
          [''Close_rolling_mean_2''], [])"
  by (simp add: build_features_def column_body_def window_body_def operation_body_def
      add_feature_def getitem_def roll_ex setitem_def columns_def example_frame_def str2 Let_def)


lemma dropna_ex:
  "dropna \<lparr>index = DatetimeIndex [Ts 1, Ts 2, Ts 2, Ts 3],
            cols = [(''Close'', [Some 10, Some 11, Some 12, Some 13]),
                    (''Close_rolling_mean_2'',
                     [None, Some (21 / 2), Some (23 / 2), Some (25 / 2)])]\<rparr>
   = \<lparr>index = DatetimeIndex [Ts 2, Ts 2, Ts 3],
       cols = [(''Close'', [Some 11, Some 12, Some 13]),
               (''Close_rolling_mean_2'', [Some (21 / 2), Some (23 / 2), Some (25 / 2)])]\<rparr>"
  by (simp add: dropna_def mask_rows_def take_rows_def row_complete_def len_def upt_rec
      del: not_None_eq)

lemma example_mean_only:
  "generate_rolling_features new_engineer example_frame [''Close''] [2] (Some [''mean'']) =
     Inr (\<lparr>data = Some \<lparr>index = DatetimeIndex [Ts 2, Ts 2, Ts 3],
                          cols = [(''Close'', [Some 11, Some 12, Some 13]),
                                  (''Close_rolling_mean_2'',
                                   [Some (21 / 2), Some (23 / 2), Some (25 / 2)])]\<rparr>,
            generated_features = [''Close_rolling_mean_2'']\<rparr>,
          \<lparr>index = DatetimeIndex [Ts 2, Ts 2, Ts 3],
            cols = [(''Close'', [Some 11, Some 12, Some 13]),
                    (''Close_rolling_mean_2'', [Some (21 / 2), Some (23 / 2), Some (25 / 2)])]\<rparr>,
          [Info_dropped_rows 1])"
  unfolding generate_from_build[OF build_ex] dropna_ex
  by (simp add: new_engineer_def len_def)

text \<open>Instance of C10: \<open>median\<close> is skipped, \<open>mean\<close> is computed, row 0 is dropped.\<close>

theorem unknown_operations_ignored_witness:
  "\<not> recognized ''median'' \<and>
   operation_body ''Close'' 2 ''median'' (example_frame, [], []) = Inr (example_frame, [], []) \<and>
   generate_rolling_features new_engineer example_frame [''Close''] [2]
       (Some [''median'', ''mean'']) =
     Inr (\<lparr>data = Some \<lparr>index = DatetimeIndex [Ts 2, Ts 2, Ts 3],
                          cols = [(''Close'', [Some 11, Some 12, Some 13]),
                                  (''Close_rolling_mean_2'',
                                   [Some (21 / 2), Some (23 / 2), Some (25 / 2)])]\<rparr>,
            generated_features = [''Close_rolling_mean_2'']\<rparr>,
          \<lparr>index = DatetimeIndex [Ts 2, Ts 2, Ts 3],
            cols = [(''Close'', [Some 11, Some 12, Some 13]),
                    (''Close_rolling_mean_2'', [Some (21 / 2), Some (23 / 2), Some (25 / 2)])]\<rparr>,
          [Info_dropped_rows 1])"
proof -
  have f: "filter recognized [''median'', ''mean''] = [''mean'']"
    by (simp add: recognized_def)
  have n: "\<not> recognized ''median''" by (simp add: recognized_def)
  show ?thesis
    using unknown_operations_ignored[of "''median''" "''Close''" 2 "(example_frame, [], [])"
        new_engineer example_frame "[''Close'']" "[2]" "[''median'', ''mean'']"]
      n example_mean_only
    unfolding f by simp
qed


end
